theory Spec2Isabelle
  imports Main "HOL-Library.AList"
begin

section \<open>Values, errors and typed responses\<close>

text \<open>
  Values that cross the boundary to the data store, the aggregator and the processor are
  JSON-like JavaScript values. An object is an association list of its properties; a
  property that is missing reads as \<open>Undefined\<close>.
\<close>

datatype jsval =
    Undefined
  | Null
  | Bool bool
  | Num int
  | Str string
  | Arr "jsval list"
  | Obj "(string \<times> jsval) list"

text \<open>
  What a \<open>throw\<close> or a rejected promise carries: the \<open>TypeError\<close> of a property read on
  \<open>undefined\<close>, \<open>new Error(msg)\<close>, the bare \<open>Error\<close> constructor that
  \<open>exchangePublicToken\<close> throws, and whatever an external service rejects with.
\<close>

datatype error =
    TypeError
  | ErrorMsg string
  | ErrorCtor
  | ServiceError string

text \<open>JavaScript truthiness, as \<open>!x\<close> tests it.\<close>

fun truthy :: "jsval \<Rightarrow> bool" where
  "truthy Undefined = False"
| "truthy Null = False"
| "truthy (Bool b) = b"
| "truthy (Num n) = (n \<noteq> 0)"
| "truthy (Str s) = (s \<noteq> [])"
| "truthy (Arr xs) = True"
| "truthy (Obj fs) = True"

text \<open>\<open>xs[i]\<close> on an array: \<open>undefined\<close> out of range.\<close>

definition js_index :: "jsval list \<Rightarrow> nat \<Rightarrow> jsval" where
  "js_index xs i = (if i < length xs then xs ! i else Undefined)"

text \<open>\<open>o.k\<close> on an object given by its properties.\<close>

definition obj_get :: "(string \<times> jsval) list \<Rightarrow> string \<Rightarrow> jsval" where
  "obj_get fs k = (case map_of fs k of None \<Rightarrow> Undefined | Some v \<Rightarrow> v)"

text \<open>
  The object literal \<open>{...a, ...b}\<close>: the properties of \<open>a\<close> overlaid by those of \<open>b\<close>, a
  later property replacing an earlier one of the same name.
\<close>

definition spread :: "(string \<times> jsval) list \<Rightarrow> (string \<times> jsval) list \<Rightarrow> (string \<times> jsval) list" where
  "spread a b = AList.merge a b"

text \<open>\<open>headers.get(h)\<close> is a string or \<open>null\<close>.\<close>

fun header_get :: "string option \<Rightarrow> jsval" where
  "header_get None = Null"
| "header_get (Some s) = Str s"

record exchange_resp =
  access_token :: string
  item_id :: string

record plaid_account =
  account_id :: string
  name :: string

record dwolla_resp =
  location :: "string option"
  body_links :: jsval

record doclist =
  total :: nat
  documents :: "jsval list"

record session =
  secret :: string
  userId :: string

record account_model =
  dollar_id :: string

datatype query = Equal string jsval

section \<open>The external world\<close>

text \<open>
  Every call that leaves the process is recorded with the response it got, in order. The
  responses themselves are not decided here: they are the operations of an environment
  over an abstract world \<open>'w\<close>, each of which may fail.
\<close>

datatype event =
    ItemPublicTokenExchange string "error + exchange_resp"
  | AccountsGet string "error + plaid_account list"
  | ProcessorTokenCreate string string string "error + string"
  | DwollaPost string "jsval option" "error + dwolla_resp"
  | CreateAdminClient "error + unit"
  | CreateSessionClient "error + unit"
  | ListDocuments "string option" "string option" "query list" "error + doclist"
  | CreateDocument "string option" "string option" string jsval "error + jsval"
  | AccountCreate string string string string "error + account_model option"
  | CreateEmailPasswordSession string string "error + session"
  | DeleteSession string "error + unit"
  | CookiesSet string string jsval "error + unit"
  | CookiesDelete string "error + unit"
  | RevalidatePath string "error + unit"
  | ConsoleLog error
  | ConsoleError string error

text \<open>
  The helpers \<open>parseStringify\<close>, \<open>encryptId\<close> and \<open>extractCustomerIdFromUrl\<close> of
  \<open>lib/utils\<close>, the client factories of \<open>lib/appwrite\<close> and the identifiers read from
  \<open>process.env\<close> are not part of the sources at hand; they are fields of the environment
  as well. \<open>account_create\<close> answers \<open>None\<close> for a falsy value.
\<close>

record 'w env =
  plaid_itemPublicTokenExchange :: "string \<Rightarrow> 'w \<Rightarrow> (error + exchange_resp) \<times> 'w"
  plaid_accountsGet :: "string \<Rightarrow> 'w \<Rightarrow> (error + plaid_account list) \<times> 'w"
  plaid_processorTokenCreate :: "string \<Rightarrow> string \<Rightarrow> string \<Rightarrow> 'w \<Rightarrow> (error + string) \<times> 'w"
  dwolla_post :: "string \<Rightarrow> jsval option \<Rightarrow> 'w \<Rightarrow> (error + dwolla_resp) \<times> 'w"
  createAdminClient :: "'w \<Rightarrow> (error + unit) \<times> 'w"
  createSessionClient :: "'w \<Rightarrow> (error + unit) \<times> 'w"
  database_listDocuments :: "string option \<Rightarrow> string option \<Rightarrow> query list \<Rightarrow> 'w \<Rightarrow> (error + doclist) \<times> 'w"
  database_createDocument :: "string option \<Rightarrow> string option \<Rightarrow> string \<Rightarrow> jsval \<Rightarrow> 'w \<Rightarrow> (error + jsval) \<times> 'w"
  account_create :: "string \<Rightarrow> string \<Rightarrow> string \<Rightarrow> string \<Rightarrow> 'w \<Rightarrow> (error + account_model option) \<times> 'w"
  account_createEmailPasswordSession :: "string \<Rightarrow> string \<Rightarrow> 'w \<Rightarrow> (error + session) \<times> 'w"
  account_deleteSession :: "string \<Rightarrow> 'w \<Rightarrow> (error + unit) \<times> 'w"
  cookies_set :: "string \<Rightarrow> string \<Rightarrow> jsval \<Rightarrow> 'w \<Rightarrow> (error + unit) \<times> 'w"
  cookies_delete :: "string \<Rightarrow> 'w \<Rightarrow> (error + unit) \<times> 'w"
  revalidatePath :: "string \<Rightarrow> 'w \<Rightarrow> (error + unit) \<times> 'w"
  ID_unique :: "'w \<Rightarrow> string \<times> 'w"
  parseStringify :: "jsval \<Rightarrow> error + jsval"
  encryptId :: "string \<Rightarrow> error + string"
  extractCustomerIdFromUrl :: "jsval \<Rightarrow> error + string"
  DATABASE_ID :: "string option"
  USER_COLLECTION_ID :: "string option"
  BANK_COLLECTION_ID :: "string option"
  TRANSACTION_COLLECTION_ID :: "string option"

section \<open>Sequencing, throwing and catching\<close>

type_synonym 'w st = "event list \<times> 'w"

type_synonym ('a, 'w) prog = "'w st \<Rightarrow> (error + 'a) \<times> 'w st"

definition returnE :: "'a \<Rightarrow> ('a, 'w) prog" where
  "returnE x = (\<lambda>s. (Inr x, s))"

definition throwE :: "error \<Rightarrow> ('a, 'w) prog" where
  "throwE e = (\<lambda>s. (Inl e, s))"

text \<open>\<open>const x = await m; ...\<close>: a throw in \<open>m\<close> skips the rest.\<close>

definition bindE :: "('a, 'w) prog \<Rightarrow> ('a \<Rightarrow> ('b, 'w) prog) \<Rightarrow> ('b, 'w) prog" where
  "bindE m f = (\<lambda>s. case m s of (Inl e, s') \<Rightarrow> (Inl e, s') | (Inr x, s') \<Rightarrow> f x s')"

text \<open>A helper without effects that may throw.\<close>

definition liftE :: "error + 'a \<Rightarrow> ('a, 'w) prog" where
  "liftE r = (\<lambda>s. (r, s))"

text \<open>An action of this repository that catches everything itself.\<close>

definition liftT :: "('w st \<Rightarrow> 'a \<times> 'w st) \<Rightarrow> ('a, 'w) prog" where
  "liftT f = (\<lambda>s. case f s of (v, s') \<Rightarrow> (Inr v, s'))"

text \<open>An external call: run the environment's operation and record it with its response.\<close>

definition call :: "((error + 'a) \<Rightarrow> event) \<Rightarrow> ('w \<Rightarrow> (error + 'a) \<times> 'w) \<Rightarrow> ('a, 'w) prog" where
  "call ev op = (\<lambda>(tr, w). case op w of (r, w') \<Rightarrow> (r, (tr @ [ev r], w')))"

definition idUnique :: "'w env \<Rightarrow> (string, 'w) prog" where
  "idUnique env = (\<lambda>(tr, w). case ID_unique env w of (i, w') \<Rightarrow> (Inr i, (tr, w')))"

text \<open>\<open>try { body } catch (error) { handler }\<close> around a whole function body.\<close>

definition try_catch :: "(jsval, 'w) prog \<Rightarrow> (error \<Rightarrow> 'w st \<Rightarrow> jsval \<times> 'w st) \<Rightarrow> 'w st \<Rightarrow> jsval \<times> 'w st" where
  "try_catch body handler = (\<lambda>s. case body s of (Inr v, s') \<Rightarrow> (v, s') | (Inl e, s') \<Rightarrow> handler e s')"

definition console_log :: "error \<Rightarrow> 'w st \<Rightarrow> 'w st" where
  "console_log e = (\<lambda>(tr, w). (tr @ [ConsoleLog e], w))"

definition console_error :: "string \<Rightarrow> error \<Rightarrow> 'w st \<Rightarrow> 'w st" where
  "console_error msg e = (\<lambda>(tr, w). (tr @ [ConsoleError msg e], w))"

section \<open>Payment actions (the processor adapter)\<close>

record CreateFundingSourceOptions =
  customerId :: string
  fundingSourceName :: string
  plaidToken :: string
  links :: jsval

text \<open>
  \<open>createFundingSource\<close>: one POST to \<open>customers/<customerId>/funding-sources\<close> whose
  body is \<open>{name, plaidToken}\<close>; the result is the \<open>location\<close> header. A failure is
  logged and the function falls off its end.
\<close>

definition createFundingSource :: "'w env \<Rightarrow> CreateFundingSourceOptions \<Rightarrow> 'w st \<Rightarrow> jsval \<times> 'w st" where
  "createFundingSource env options =
     try_catch
       (bindE
          (call (DwollaPost (''customers/'' @ customerId options @ ''/funding-sources'')
                   (Some (Obj [(''name'', Str (fundingSourceName options)),
                               (''plaidToken'', Str (plaidToken options))])))
             (dwolla_post env (''customers/'' @ customerId options @ ''/funding-sources'')
                (Some (Obj [(''name'', Str (fundingSourceName options)),
                            (''plaidToken'', Str (plaidToken options))]))))
          (\<lambda>res. returnE (header_get (location res))))
       (\<lambda>err s. (Undefined, console_error ''Creating a Funding Source Failed: '' err s))"

definition createOnDemandAuthorization :: "'w env \<Rightarrow> 'w st \<Rightarrow> jsval \<times> 'w st" where
  "createOnDemandAuthorization env =
     try_catch
       (bindE
          (call (DwollaPost ''on-demand-authorizations'' None)
             (dwolla_post env ''on-demand-authorizations'' None))
          (\<lambda>onDemandAuthorization. returnE (body_links onDemandAuthorization)))
       (\<lambda>err s. (Undefined, console_error ''Creating an On Demand Authorization Failed: '' err s))"

definition createDwollaCustomer :: "'w env \<Rightarrow> jsval \<Rightarrow> 'w st \<Rightarrow> jsval \<times> 'w st" where
  "createDwollaCustomer env newCustomer =
     try_catch
       (bindE
          (call (DwollaPost ''customers'' (Some newCustomer))
             (dwolla_post env ''customers'' (Some newCustomer)))
          (\<lambda>res. returnE (header_get (location res))))
       (\<lambda>err s. (Undefined, console_error ''Creating a Dwolla Customer Failed: '' err s))"

text \<open>
  \<open>addFundingSource\<close>: fetch the authorization links, put them into the options under
  \<open>_links\<close>, and hand the options to \<open>createFundingSource\<close>.
\<close>

definition addFundingSource :: "'w env \<Rightarrow> string \<Rightarrow> string \<Rightarrow> string \<Rightarrow> 'w st \<Rightarrow> jsval \<times> 'w st" where
  "addFundingSource env dwollaCustomerId processorToken bankName =
     try_catch
       (bindE (liftT (createOnDemandAuthorization env))
          (\<lambda>dwollaAuthLinks.
             liftT (createFundingSource env
               \<lparr>customerId = dwollaCustomerId,
                fundingSourceName = bankName,
                plaidToken = processorToken,
                links = dwollaAuthLinks\<rparr>)))
       (\<lambda>err s. (Undefined, console_error ''Transfer fund failed: '' err s))"

section \<open>Transfer actions\<close>

text \<open>
  \<open>createTransaction\<close>: the document handed to the store is
  \<open>{channel: 'Online', category: 'Transfer', ...transaction}\<close>.
\<close>

definition createTransaction :: "'w env \<Rightarrow> (string \<times> jsval) list \<Rightarrow> 'w st \<Rightarrow> jsval \<times> 'w st" where
  "createTransaction env transaction =
     try_catch
       (bindE (call CreateAdminClient (createAdminClient env))
          (\<lambda>_. bindE (idUnique env)
          (\<lambda>docId. bindE
             (call (CreateDocument (DATABASE_ID env) (TRANSACTION_COLLECTION_ID env) docId
                      (Obj (spread [(''channel'', Str ''Online''), (''category'', Str ''Transfer'')] transaction)))
                (database_createDocument env (DATABASE_ID env) (TRANSACTION_COLLECTION_ID env) docId
                      (Obj (spread [(''channel'', Str ''Online''), (''category'', Str ''Transfer'')] transaction))))
          (\<lambda>newTransaction. liftE (parseStringify env newTransaction)))))
       (\<lambda>err s. (Undefined, console_log err s))"

definition getTransactionsByBankId :: "'w env \<Rightarrow> string \<Rightarrow> 'w st \<Rightarrow> jsval \<times> 'w st" where
  "getTransactionsByBankId env bankId =
     try_catch
       (bindE (call CreateAdminClient (createAdminClient env))
          (\<lambda>_. bindE
             (call (ListDocuments (DATABASE_ID env) (TRANSACTION_COLLECTION_ID env) [Equal ''senderBankId'' (Str bankId)])
                (database_listDocuments env (DATABASE_ID env) (TRANSACTION_COLLECTION_ID env) [Equal ''senderBankId'' (Str bankId)]))
          (\<lambda>senderTransactions. bindE
             (call (ListDocuments (DATABASE_ID env) (TRANSACTION_COLLECTION_ID env) [Equal ''receiverBankId'' (Str bankId)])
                (database_listDocuments env (DATABASE_ID env) (TRANSACTION_COLLECTION_ID env) [Equal ''receiverBankId'' (Str bankId)]))
          (\<lambda>receiverTransactions.
             liftE (parseStringify env
               (Obj [(''total'', Num (int (total senderTransactions + total receiverTransactions))),
                     (''documents'', Arr (documents senderTransactions @ documents receiverTransactions))]))))))
       (\<lambda>err s. (Undefined, console_log err s))"

section \<open>User actions\<close>

definition getUserInfo :: "'w env \<Rightarrow> string \<Rightarrow> 'w st \<Rightarrow> jsval \<times> 'w st" where
  "getUserInfo env uid =
     try_catch
       (bindE (call CreateAdminClient (createAdminClient env))
          (\<lambda>_. bindE
             (call (ListDocuments (DATABASE_ID env) (USER_COLLECTION_ID env) [Equal ''userId'' (Arr [Str uid])])
                (database_listDocuments env (DATABASE_ID env) (USER_COLLECTION_ID env) [Equal ''userId'' (Arr [Str uid])]))
          (\<lambda>user. liftE (parseStringify env (js_index (documents user) 0)))))
       (\<lambda>err s. (Undefined, console_log err s))"

text \<open>
  \<open>getBankByAccountId\<close>: \<open>null\<close> unless the response's \<open>total\<close> is 1, otherwise the
  first document.
\<close>

definition getBankByAccountId :: "'w env \<Rightarrow> string \<Rightarrow> 'w st \<Rightarrow> jsval \<times> 'w st" where
  "getBankByAccountId env accountId =
     try_catch
       (bindE (call CreateAdminClient (createAdminClient env))
          (\<lambda>_. bindE
             (call (ListDocuments (DATABASE_ID env) (BANK_COLLECTION_ID env) [Equal ''accountId'' (Arr [Str accountId])])
                (database_listDocuments env (DATABASE_ID env) (BANK_COLLECTION_ID env) [Equal ''accountId'' (Arr [Str accountId])]))
          (\<lambda>bank.
             if total bank \<noteq> 1 then returnE Null
             else liftE (parseStringify env (js_index (documents bank) 0)))))
       (\<lambda>err s. (Undefined, console_log err s))"

text \<open>
  \<open>logoutAccount\<close>: the \<open>try\<close> block has no \<open>return\<close>, so a run without a throw falls
  off the end of the function; the \<open>catch\<close> block returns \<open>null\<close>.
\<close>

definition logoutAccount :: "'w env \<Rightarrow> 'w st \<Rightarrow> jsval \<times> 'w st" where
  "logoutAccount env =
     try_catch
       (bindE (call CreateSessionClient (createSessionClient env))
          (\<lambda>_. bindE (call (CookiesDelete ''appwrite-session'') (cookies_delete env ''appwrite-session''))
          (\<lambda>_. bindE (call (DeleteSession ''current'') (account_deleteSession env ''current''))
          (\<lambda>_. returnE Undefined))))
       (\<lambda>err s. (Null, s))"

text \<open>The options every session cookie is set with.\<close>

definition cookie_options :: jsval where
  "cookie_options =
     Obj [(''path'', Str ''/''), (''httpOnly'', Bool True), (''sameSite'', Str ''strict''), (''secure'', Bool True)]"

record SignUpParams =
  email :: string
  firstName :: string
  lastName :: string
  password :: string
  others :: "(string \<times> jsval) list"

text \<open>
  \<open>userData\<close> is the parameter object without \<open>password\<close>; \<open>others\<close> stands for the
  properties of \<open>SignUpParams\<close> that \<open>signUp\<close> never reads by name.
\<close>

definition userData_of :: "SignUpParams \<Rightarrow> (string \<times> jsval) list" where
  "userData_of p =
     [(''email'', Str (email p)), (''firstName'', Str (firstName p)), (''lastName'', Str (lastName p))] @ others p"

definition signUp_try :: "'w env \<Rightarrow> SignUpParams \<Rightarrow> (jsval, 'w) prog" where
  "signUp_try env p =
     bindE (call CreateAdminClient (createAdminClient env))
       (\<lambda>_. bindE (idUnique env)
       (\<lambda>accId. bindE
          (call (AccountCreate accId (email p) (password p) (firstName p @ '' '' @ lastName p))
             (account_create env accId (email p) (password p) (firstName p @ '' '' @ lastName p)))
       (\<lambda>newUserAccount.
          case newUserAccount of
            None \<Rightarrow> throwE (ErrorMsg ''Error creating user'')
          | Some acct \<Rightarrow>
              bindE (liftT (createDwollaCustomer env (Obj (spread (userData_of p) [(''type'', Str ''personal'')]))))
                (\<lambda>dwollaCustomerUrl.
                   if \<not> truthy dwollaCustomerUrl then throwE (ErrorMsg ''Error creating Dwolla customer'')
                   else
                     bindE (liftE (extractCustomerIdFromUrl env dwollaCustomerUrl))
                       (\<lambda>dwollaCustomerId. bindE (idUnique env)
                       (\<lambda>docId. bindE
                          (call (CreateDocument (DATABASE_ID env) (USER_COLLECTION_ID env) docId
                                   (Obj (spread (userData_of p)
                                      [(''userId'', Str (dollar_id acct)),
                                       (''dwollaCustomerId'', Str dwollaCustomerId),
                                       (''dwollaCustomerUrl'', dwollaCustomerUrl)])))
                             (database_createDocument env (DATABASE_ID env) (USER_COLLECTION_ID env) docId
                                   (Obj (spread (userData_of p)
                                      [(''userId'', Str (dollar_id acct)),
                                       (''dwollaCustomerId'', Str dwollaCustomerId),
                                       (''dwollaCustomerUrl'', dwollaCustomerUrl)]))))
                       (\<lambda>newUser. bindE
                          (call (CreateEmailPasswordSession (email p) (password p))
                             (account_createEmailPasswordSession env (email p) (password p)))
                       (\<lambda>session. bindE
                          (call (CookiesSet ''appwrite-session'' (secret session) cookie_options)
                             (cookies_set env ''appwrite-session'' (secret session) cookie_options))
                       (\<lambda>_. liftE (parseStringify env newUser))))))))))"

definition signUp :: "'w env \<Rightarrow> SignUpParams \<Rightarrow> 'w st \<Rightarrow> jsval \<times> 'w st" where
  "signUp env p = try_catch (signUp_try env p) (\<lambda>err s. (Undefined, console_error ''Error'' err s))"

record createBankAccountProps =
  bank_userId :: string
  bankId :: string
  accountId :: string
  accessToken :: string
  fundingSourceUrl :: jsval
  shareableId :: string

text \<open>\<open>createBankAccount\<close>: the \<open>catch\<close> block is empty.\<close>

definition createBankAccount :: "'w env \<Rightarrow> createBankAccountProps \<Rightarrow> 'w st \<Rightarrow> jsval \<times> 'w st" where
  "createBankAccount env props =
     try_catch
       (bindE (call CreateAdminClient (createAdminClient env))
          (\<lambda>_. bindE (idUnique env)
          (\<lambda>docId. bindE
             (call (CreateDocument (DATABASE_ID env) (BANK_COLLECTION_ID env) docId
                      (Obj [(''userId'', Str (bank_userId props)),
                            (''bankId'', Str (bankId props)),
                            (''accountId'', Str (accountId props)),
                            (''accessToken'', Str (accessToken props)),
                            (''fundingSourceUrl'', fundingSourceUrl props),
                            (''shareableId'', Str (shareableId props))]))
                (database_createDocument env (DATABASE_ID env) (BANK_COLLECTION_ID env) docId
                      (Obj [(''userId'', Str (bank_userId props)),
                            (''bankId'', Str (bankId props)),
                            (''accountId'', Str (accountId props)),
                            (''accessToken'', Str (accessToken props)),
                            (''fundingSourceUrl'', fundingSourceUrl props),
                            (''shareableId'', Str (shareableId props))])))
          (\<lambda>bankAccount. liftE (parseStringify env bankAccount)))))
       (\<lambda>err s. (Undefined, s))"

record User =
  user_dollar_id :: string
  dwollaCustomerId :: string

text \<open>
  The linking workflow. \<open>accounts[0]\<close> is \<open>undefined\<close> on an empty list, and reading
  \<open>account_id\<close> from it while the processor-token request is built throws a
  \<open>TypeError\<close>.
\<close>

definition exchangePublicToken_try :: "'w env \<Rightarrow> string \<Rightarrow> User \<Rightarrow> (jsval, 'w) prog" where
  "exchangePublicToken_try env publicToken user =
     bindE (call (ItemPublicTokenExchange publicToken) (plaid_itemPublicTokenExchange env publicToken))
       (\<lambda>response. bindE
          (call (AccountsGet (access_token response)) (plaid_accountsGet env (access_token response)))
       (\<lambda>accounts.
          case accounts of
            [] \<Rightarrow> throwE TypeError
          | accountData # _ \<Rightarrow>
              bindE
                (call (ProcessorTokenCreate (access_token response) (account_id accountData) ''dwolla'')
                   (plaid_processorTokenCreate env (access_token response) (account_id accountData) ''dwolla''))
                (\<lambda>processorToken. bindE
                   (liftT (addFundingSource env (dwollaCustomerId user) processorToken (name accountData)))
                (\<lambda>fundingSourceUrl.
                   if \<not> truthy fundingSourceUrl then throwE ErrorCtor
                   else
                     bindE (liftE (encryptId env (account_id accountData)))
                       (\<lambda>encrypted. bindE
                          (liftT (createBankAccount env
                             \<lparr>bank_userId = user_dollar_id user,
                              bankId = item_id response,
                              accountId = account_id accountData,
                              accessToken = access_token response,
                              fundingSourceUrl = fundingSourceUrl,
                              shareableId = encrypted\<rparr>))
                       (\<lambda>_. bindE (call (RevalidatePath ''/'') (revalidatePath env ''/''))
                       (\<lambda>_. liftE (parseStringify env (Obj [(''publicTokenExchange'', Str ''complete'')])))))))))"

definition exchangePublicToken :: "'w env \<Rightarrow> string \<Rightarrow> User \<Rightarrow> 'w st \<Rightarrow> jsval \<times> 'w st" where
  "exchangePublicToken env publicToken user =
     try_catch (exchangePublicToken_try env publicToken user)
       (\<lambda>err s. (Undefined, console_error ''An error occurred while creating exchanging token:'' err s))"

section \<open>A concrete environment\<close>

text \<open>
  An environment in which every service answers: the world is the list of documents the
  store has accepted so far. \<open>parseStringify\<close> is instantiated by a copy through JSON
  text, which gives back what it is given and throws on \<open>undefined\<close>;
  \<open>extractCustomerIdFromUrl\<close> by the last segment of the URL.
\<close>

fun matches :: "query \<Rightarrow> jsval \<Rightarrow> bool" where
  "matches (Equal k (Arr vs)) (Obj fs) = (obj_get fs k \<in> set vs)"
| "matches (Equal k v) (Obj fs) = (obj_get fs k = v)"
| "matches q d = False"

definition last_segment :: "jsval \<Rightarrow> error + string" where
  "last_segment v =
     (case v of Str s \<Rightarrow> Inr (rev (takeWhile (\<lambda>c. c \<noteq> CHR ''/'') (rev s))) | _ \<Rightarrow> Inl TypeError)"

definition json_copy :: "jsval \<Rightarrow> error + jsval" where
  "json_copy v = (if v = Undefined then Inl (ErrorMsg ''SyntaxError'') else Inr v)"

definition demo_links :: jsval where
  "demo_links = Obj [(''self'', Str ''https://api.dwolla.com/on-demand-authorizations/7'')]"

definition demo_env :: "(jsval list) env" where
  "demo_env =
     \<lparr>plaid_itemPublicTokenExchange = (\<lambda>publicToken w. (Inr \<lparr>access_token = ''access-1'', item_id = ''item-1''\<rparr>, w)),
      plaid_accountsGet = (\<lambda>tok w. (Inr [\<lparr>account_id = ''acc-1'', name = ''Checking''\<rparr>], w)),
      plaid_processorTokenCreate = (\<lambda>tok acc proc w. (Inr ''processor-1'', w)),
      dwolla_post = (\<lambda>path body w.
        (Inr \<lparr>location = Some (''https://api.dwolla.com/'' @ path @ ''/42''),
              body_links = demo_links\<rparr>, w)),
      createAdminClient = (\<lambda>w. (Inr (), w)),
      createSessionClient = (\<lambda>w. (Inr (), w)),
      database_listDocuments = (\<lambda>db coll qs w.
        (Inr \<lparr>total = length (filter (\<lambda>d. list_all (\<lambda>q. matches q d) qs) w),
              documents = filter (\<lambda>d. list_all (\<lambda>q. matches q d) qs) w\<rparr>, w)),
      database_createDocument = (\<lambda>db coll i d w. (Inr d, w @ [d])),
      account_create = (\<lambda>i em pw nm w. (Inr (Some \<lparr>dollar_id = i\<rparr>), w)),
      account_createEmailPasswordSession = (\<lambda>em pw w. (Inr \<lparr>secret = ''s3cr3t'', userId = ''u-1''\<rparr>, w)),
      account_deleteSession = (\<lambda>sid w. (Inr (), w)),
      cookies_set = (\<lambda>k v opts w. (Inr (), w)),
      cookies_delete = (\<lambda>k w. (Inr (), w)),
      revalidatePath = (\<lambda>path w. (Inr (), w)),
      ID_unique = (\<lambda>w. (''unique()'', w)),
      parseStringify = json_copy,
      encryptId = (\<lambda>s. Inr (''enc:'' @ s)),
      extractCustomerIdFromUrl = last_segment,
      DATABASE_ID = Some ''db'',
      USER_COLLECTION_ID = Some ''users'',
      BANK_COLLECTION_ID = Some ''banks'',
      TRANSACTION_COLLECTION_ID = Some ''transactions''\<rparr>"

text \<open>The values the concrete runs below are started with, and variants of the environment.\<close>

definition demo_user :: User where
  "demo_user = \<lparr>user_dollar_id = ''u-1'', dwollaCustomerId = ''c-9''\<rparr>"

definition demo_signup :: SignUpParams where
  "demo_signup = \<lparr>email = ''a@b.com'', firstName = ''A'', lastName = ''B'', password = ''pw'', others = []\<rparr>"

definition demo_bank :: jsval where
  "demo_bank = Obj [(''accountId'', Str ''acc-1''), (''bankId'', Str ''item-1'')]"

definition demo_bank_twin :: jsval where
  "demo_bank_twin = Obj [(''accountId'', Str ''acc-1''), (''bankId'', Str ''item-2'')]"

definition demo_user_doc :: jsval where
  "demo_user_doc = Obj [(''userId'', Str ''u-1''), (''email'', Str ''a@b.com'')]"

definition demo_user_twin :: jsval where
  "demo_user_twin = Obj [(''userId'', Str ''u-1''), (''email'', Str ''c@d.com'')]"

definition demo_transfer :: jsval where
  "demo_transfer = Obj [(''senderBankId'', Str ''X''), (''receiverBankId'', Str ''Y'')]"

text \<open>The aggregator reports an item without accounts.\<close>

definition empty_accounts_env :: "(jsval list) env" where
  "empty_accounts_env = demo_env\<lparr>plaid_accountsGet := (\<lambda>tok w. (Inr [], w))\<rparr>"

text \<open>The store rejects every document.\<close>

definition store_down_env :: "(jsval list) env" where
  "store_down_env =
     demo_env\<lparr>database_createDocument := (\<lambda>db coll i d w. (Inl (ServiceError ''document_invalid_structure''), w))\<rparr>"

text \<open>The processor rejects the authorization request and accepts the registration.\<close>

definition auth_down_env :: "(jsval list) env" where
  "auth_down_env =
     demo_env\<lparr>dwolla_post := (\<lambda>path body w.
       if path = ''on-demand-authorizations'' then (Inl (ServiceError ''401''), w)
       else (Inr \<lparr>location = Some ''https://api.dwolla.com/funding-sources/f-1'', body_links = Null\<rparr>, w))\<rparr>"

text \<open>The session client cannot be built: the request carries no session cookie.\<close>

definition no_session_env :: "(jsval list) env" where
  "no_session_env = demo_env\<lparr>createSessionClient := (\<lambda>w. (Inl (ErrorMsg ''No session''), w))\<rparr>"

text \<open>
  The store answers the sender query with a page of 25 documents out of 26 matches: a
  query without a limit gets one page, and \<open>total\<close> counts every match.
\<close>

definition paged_env :: "(jsval list) env" where
  "paged_env =
     demo_env\<lparr>database_listDocuments := (\<lambda>db coll qs w.
       if qs = [Equal ''senderBankId'' (Str ''X'')]
       then (Inr \<lparr>total = 26, documents = replicate 25 demo_transfer\<rparr>, w)
       else (Inr \<lparr>total = 0, documents = []\<rparr>, w))\<rparr>"

text \<open>
  What the concrete environment records for the linking workflow up to and including the
  registration, and the Bank document the workflow then submits.
\<close>

definition demo_link_prefix :: "event list" where
  "demo_link_prefix =
     [ItemPublicTokenExchange ''public-1'' (Inr \<lparr>access_token = ''access-1'', item_id = ''item-1''\<rparr>),
      AccountsGet ''access-1'' (Inr [\<lparr>account_id = ''acc-1'', name = ''Checking''\<rparr>]),
      ProcessorTokenCreate ''access-1'' ''acc-1'' ''dwolla'' (Inr ''processor-1''),
      DwollaPost ''on-demand-authorizations'' None
        (Inr \<lparr>location = Some ''https://api.dwolla.com/on-demand-authorizations/42'', body_links = demo_links\<rparr>),
      DwollaPost ''customers/c-9/funding-sources''
        (Some (Obj [(''name'', Str ''Checking''), (''plaidToken'', Str ''processor-1'')]))
        (Inr \<lparr>location = Some ''https://api.dwolla.com/customers/c-9/funding-sources/42'', body_links = demo_links\<rparr>)]"

definition demo_bank_record :: jsval where
  "demo_bank_record =
     Obj [(''userId'', Str ''u-1''), (''bankId'', Str ''item-1''), (''accountId'', Str ''acc-1''),
          (''accessToken'', Str ''access-1''),
          (''fundingSourceUrl'', Str ''https://api.dwolla.com/customers/c-9/funding-sources/42''),
          (''shareableId'', Str ''enc:acc-1'')]"


text \<open>The User document the concrete sign-up submits.\<close>

definition demo_new_user :: jsval where
  "demo_new_user =
     Obj [(''email'', Str ''a@b.com''), (''firstName'', Str ''A''), (''lastName'', Str ''B''),
          (''dwollaCustomerUrl'', Str ''https://api.dwolla.com/customers/42''),
          (''dwollaCustomerId'', Str ''42''),
          (''userId'', Str ''unique()'')]"

text \<open>Two more stored transfers, and two inputs of \<open>createTransaction\<close>.\<close>

definition demo_transfer_second :: jsval where
  "demo_transfer_second =
     Obj [(''senderBankId'', Str ''X''), (''receiverBankId'', Str ''Y''), (''amount'', Str ''7'')]"

definition demo_transfer_back :: jsval where
  "demo_transfer_back = Obj [(''senderBankId'', Str ''Y''), (''receiverBankId'', Str ''X'')]"

definition demo_transaction :: "(string \<times> jsval) list" where
  "demo_transaction =
     [(''senderBankId'', Str ''X''), (''receiverBankId'', Str ''Y''), (''amount'', Str ''10''),
      (''currency'', Str ''USD'')]"

definition demo_transaction_with_channel :: "(string \<times> jsval) list" where
  "demo_transaction_with_channel =
     [(''senderBankId'', Str ''X''), (''receiverBankId'', Str ''Y''), (''amount'', Str ''10''),
      (''currency'', Str ''USD''), (''channel'', Str ''ATM'')]"

section \<open>Reading a run's record of calls\<close>


text \<open>The registration POST for customer \<open>cust\<close> answered with a non-empty \<open>location\<close>.\<close>

fun funding_registered :: "string \<Rightarrow> event \<Rightarrow> bool" where
  "funding_registered cust (DwollaPost path body (Inr res)) =
     (path = ''customers/'' @ cust @ ''/funding-sources'' \<and>
      (case location res of None \<Rightarrow> False | Some url \<Rightarrow> url \<noteq> []))"
| "funding_registered cust e = False"






section \<open>How the combinators and the adapter run\<close>

lemmas prog_defs = returnE_def throwE_def bindE_def liftE_def liftT_def call_def idUnique_def
  try_catch_def console_log_def console_error_def

lemmas demo_defs = demo_env_def demo_user_def demo_signup_def demo_links_def demo_bank_def
  demo_bank_twin_def demo_user_doc_def demo_user_twin_def demo_transfer_def json_copy_def
  last_segment_def cookie_options_def demo_new_user_def demo_transfer_second_def
  demo_transfer_back_def demo_transaction_def demo_transaction_with_channel_def

lemma bindE_InrE:
  assumes "bindE m f s = (Inr v, s')"
  obtains x s1 where "m s = (Inr x, s1)" and "f x s1 = (Inr v, s')"
  using assms by (auto simp: bindE_def split: prod.splits sum.splits)

lemma call_InrE:
  assumes "call ev op (tr, w) = (Inr x, s1)"
  obtains w1 where "op w = (Inr x, w1)" and "s1 = (tr @ [ev (Inr x)], w1)"
  using assms by (auto simp: call_def split: prod.splits)

lemma idUnique_E:
  assumes "idUnique env (tr, w) = (Inr i, s1)"
  obtains w1 where "ID_unique env w = (i, w1)" and "s1 = (tr, w1)"
  using assms by (auto simp: idUnique_def split: prod.splits)

lemma liftE_E:
  assumes "liftE r s = (Inr x, s1)"
  obtains "r = Inr x" and "s1 = s"
  using assms by (auto simp: liftE_def)

lemma throwE_E:
  assumes "throwE e s = (Inr x, s1)"
  shows "P"
  using assms by (simp add: throwE_def)

lemma obj_get_spread:
  "obj_get (spread a b) k = (case map_of b k of None \<Rightarrow> obj_get a k | Some v \<Rightarrow> v)"
  by (simp add: obj_get_def spread_def merge_conv' map_add_def split: option.splits)

text \<open>
  The authorization request: its \<open>_links\<close> on success, \<open>undefined\<close> and a console line
  on failure.
\<close>

lemma createOnDemandAuthorization_run:
  "createOnDemandAuthorization env (tr, w) =
     (case dwolla_post env ''on-demand-authorizations'' None w of
        (Inl e, w1) \<Rightarrow>
          (Undefined, (tr @ [DwollaPost ''on-demand-authorizations'' None (Inl e),
                             ConsoleError ''Creating an On Demand Authorization Failed: '' e], w1))
      | (Inr res, w1) \<Rightarrow>
          (body_links res, (tr @ [DwollaPost ''on-demand-authorizations'' None (Inr res)], w1)))"
proof (cases "dwolla_post env ''on-demand-authorizations'' None w")
  case (Pair ra w1)
  then show ?thesis
    by (cases ra) (simp_all add: createOnDemandAuthorization_def prog_defs)
qed

text \<open>The registration request: its body holds \<open>name\<close> and \<open>plaidToken\<close> and nothing else.\<close>

lemma createFundingSource_run:
  "createFundingSource env options (tr, w) =
     (case dwolla_post env (''customers/'' @ customerId options @ ''/funding-sources'')
             (Some (Obj [(''name'', Str (fundingSourceName options)),
                         (''plaidToken'', Str (plaidToken options))])) w of
        (Inl e, w1) \<Rightarrow>
          (Undefined,
           (tr @ [DwollaPost (''customers/'' @ customerId options @ ''/funding-sources'')
                    (Some (Obj [(''name'', Str (fundingSourceName options)),
                                (''plaidToken'', Str (plaidToken options))])) (Inl e),
                  ConsoleError ''Creating a Funding Source Failed: '' e], w1))
      | (Inr res, w1) \<Rightarrow>
          (header_get (location res),
           (tr @ [DwollaPost (''customers/'' @ customerId options @ ''/funding-sources'')
                    (Some (Obj [(''name'', Str (fundingSourceName options)),
                                (''plaidToken'', Str (plaidToken options))])) (Inr res)], w1)))"
proof (cases "dwolla_post env (''customers/'' @ customerId options @ ''/funding-sources'')
             (Some (Obj [(''name'', Str (fundingSourceName options)),
                         (''plaidToken'', Str (plaidToken options))])) w")
  case (Pair rf w1)
  then show ?thesis
    by (cases rf) (simp_all add: createFundingSource_def prog_defs)
qed

lemma createFundingSource_ignores_links:
  "createFundingSource env (options\<lparr>links := l\<rparr>) s = createFundingSource env options s"
  by (simp add: createFundingSource_def)

text \<open>
  \<open>addFundingSource\<close> runs the registration after the authorization whatever the
  authorization returned: neither callee throws, so its own \<open>catch\<close> is never entered.
\<close>

lemma addFundingSource_run:
  "addFundingSource env cust tok nm s =
     (case createOnDemandAuthorization env s of
        (dwollaAuthLinks, s1) \<Rightarrow>
          createFundingSource env
            \<lparr>customerId = cust, fundingSourceName = nm, plaidToken = tok, links = dwollaAuthLinks\<rparr> s1)"
proof -
  obtain a s1 where 1: "createOnDemandAuthorization env s = (a, s1)"
    by (cases "createOnDemandAuthorization env s") blast
  obtain v s2 where 2: "createFundingSource env
            \<lparr>customerId = cust, fundingSourceName = nm, plaidToken = tok, links = a\<rparr> s1 = (v, s2)"
    by (cases "createFundingSource env
            \<lparr>customerId = cust, fundingSourceName = nm, plaidToken = tok, links = a\<rparr> s1") blast
  show ?thesis using 1 2 by (simp add: addFundingSource_def prog_defs)
qed

text \<open>
  C5. The claim: \<open>addFundingSource\<close> obtains the authorization links first and then
  registers the funding source with a request carrying customer id, name, processor
  token and the obtained links, and an authorization failure yields an absent result.
  The code does not do the last two. Run against a processor that rejects the
  authorization and accepts the registration, \<open>addFundingSource\<close> still posts the
  registration and returns its URL; and run against a processor that answers both, the
  registration body is \<open>{name, plaidToken}\<close>, without the links just obtained.
\<close>

theorem addFundingSource_drops_authorization:
  "addFundingSource auth_down_env ''c-9'' ''processor-1'' ''Checking'' ([], []) =
     (Str ''https://api.dwolla.com/funding-sources/f-1'',
      ([DwollaPost ''on-demand-authorizations'' None (Inl (ServiceError ''401'')),
        ConsoleError ''Creating an On Demand Authorization Failed: '' (ServiceError ''401''),
        DwollaPost ''customers/c-9/funding-sources''
          (Some (Obj [(''name'', Str ''Checking''), (''plaidToken'', Str ''processor-1'')]))
          (Inr \<lparr>location = Some ''https://api.dwolla.com/funding-sources/f-1'', body_links = Null\<rparr>)], []))
   \<and> addFundingSource demo_env ''c-9'' ''processor-1'' ''Checking'' ([], []) =
     (Str ''https://api.dwolla.com/customers/c-9/funding-sources/42'',
      ([DwollaPost ''on-demand-authorizations'' None
          (Inr \<lparr>location = Some ''https://api.dwolla.com/on-demand-authorizations/42'', body_links = demo_links\<rparr>),
        DwollaPost ''customers/c-9/funding-sources''
          (Some (Obj [(''name'', Str ''Checking''), (''plaidToken'', Str ''processor-1'')]))
          (Inr \<lparr>location = Some ''https://api.dwolla.com/customers/c-9/funding-sources/42'', body_links = demo_links\<rparr>)], []))"
  by (simp add: addFundingSource_run createOnDemandAuthorization_run createFundingSource_run
      auth_down_env_def demo_env_def)

text \<open>
  C8. The claim: \<open>logoutAccount\<close> returns \<open>null\<close> on every execution. The function's own
  comment says the same, but only the \<open>catch\<close> block returns \<open>null\<close>: when the session
  client, the cookie deletion and the session revocation all succeed, the function ends
  without a \<open>return\<close> and yields \<open>undefined\<close>. When the first of them fails it yields
  \<open>null\<close>.
\<close>

theorem logoutAccount_success_returns_undefined:
  "logoutAccount demo_env ([], []) =
     (Undefined, ([CreateSessionClient (Inr ()), CookiesDelete ''appwrite-session'' (Inr ()),
                   DeleteSession ''current'' (Inr ())], []))
   \<and> logoutAccount no_session_env ([], []) =
     (Null, ([CreateSessionClient (Inl (ErrorMsg ''No session''))], []))"
  by (simp add: logoutAccount_def demo_env_def no_session_env_def prog_defs)

section \<open>Read queries\<close>

text \<open>
  C3. For every account id, once the store has answered the equality query,
  \<open>getBankByAccountId\<close> returns \<open>null\<close> when the reported number of matches is 0 or at
  least 2, and the single matching document when it is exactly 1 (the document as
  \<open>parseStringify\<close> copies it).
\<close>

theorem getBankByAccountId_exactly_one:
  assumes admin: "createAdminClient env w = (Inr (), w1)"
      and query: "database_listDocuments env (DATABASE_ID env) (BANK_COLLECTION_ID env)
                    [Equal ''accountId'' (Arr [Str aid])] w1 = (Inr bank, w2)"
  shows "(total bank = 0 \<or> 2 \<le> total bank \<longrightarrow> fst (getBankByAccountId env aid (tr, w)) = Null) \<and>
         (total bank = 1 \<and> documents bank = [d] \<and> parseStringify env d = Inr d \<longrightarrow>
            fst (getBankByAccountId env aid (tr, w)) = d)"
  using admin query by (simp add: getBankByAccountId_def prog_defs js_index_def)

theorem getBankByAccountId_exactly_one_witness:
  "database_listDocuments demo_env (DATABASE_ID demo_env) (BANK_COLLECTION_ID demo_env)
     [Equal ''accountId'' (Arr [Str ''acc-1''])] [] = (Inr \<lparr>total = 0, documents = []\<rparr>, [])
   \<and> fst (getBankByAccountId demo_env ''acc-1'' ([], [])) = Null
   \<and> database_listDocuments demo_env (DATABASE_ID demo_env) (BANK_COLLECTION_ID demo_env)
     [Equal ''accountId'' (Arr [Str ''acc-1''])] [demo_bank]
       = (Inr \<lparr>total = 1, documents = [demo_bank]\<rparr>, [demo_bank])
   \<and> fst (getBankByAccountId demo_env ''acc-1'' ([], [demo_bank])) = demo_bank
   \<and> database_listDocuments demo_env (DATABASE_ID demo_env) (BANK_COLLECTION_ID demo_env)
     [Equal ''accountId'' (Arr [Str ''acc-1''])] [demo_bank, demo_bank_twin]
       = (Inr \<lparr>total = 2, documents = [demo_bank, demo_bank_twin]\<rparr>, [demo_bank, demo_bank_twin])
   \<and> fst (getBankByAccountId demo_env ''acc-1'' ([], [demo_bank, demo_bank_twin])) = Null"
proof -
  have a: "\<And>w. createAdminClient demo_env w = (Inr (), w)"
    by (simp add: demo_env_def)
  have q0: "database_listDocuments demo_env (DATABASE_ID demo_env) (BANK_COLLECTION_ID demo_env)
     [Equal ''accountId'' (Arr [Str ''acc-1''])] [] = (Inr \<lparr>total = 0, documents = []\<rparr>, [])"
    by (simp add: demo_defs)
  have q1: "database_listDocuments demo_env (DATABASE_ID demo_env) (BANK_COLLECTION_ID demo_env)
     [Equal ''accountId'' (Arr [Str ''acc-1''])] [demo_bank]
       = (Inr \<lparr>total = 1, documents = [demo_bank]\<rparr>, [demo_bank])"
    by (simp add: demo_defs obj_get_def)
  have q2: "database_listDocuments demo_env (DATABASE_ID demo_env) (BANK_COLLECTION_ID demo_env)
     [Equal ''accountId'' (Arr [Str ''acc-1''])] [demo_bank, demo_bank_twin]
       = (Inr \<lparr>total = 2, documents = [demo_bank, demo_bank_twin]\<rparr>, [demo_bank, demo_bank_twin])"
    by (simp add: demo_defs obj_get_def)
  have p: "parseStringify demo_env demo_bank = Inr demo_bank"
    by (simp add: demo_defs)
  from getBankByAccountId_exactly_one [OF a q0, where tr = "[]"]
       getBankByAccountId_exactly_one [OF a q1, where tr = "[]" and d = demo_bank]
       getBankByAccountId_exactly_one [OF a q2, where tr = "[]"] p q0 q1 q2
  show ?thesis by simp
qed

text \<open>
  C9. \<open>getUserInfo\<close> hands the first document of the answer to \<open>parseStringify\<close> and
  never looks at \<open>total\<close>. With no match the first document is \<open>undefined\<close>, and the
  result is \<open>undefined\<close> (provided \<open>parseStringify\<close> makes nothing else out of
  \<open>undefined\<close>: it may return it or throw); with several matches the result is the first
  one.
\<close>

theorem getUserInfo_first_document:
  assumes admin: "createAdminClient env w = (Inr (), w1)"
      and query: "database_listDocuments env (DATABASE_ID env) (USER_COLLECTION_ID env)
                    [Equal ''userId'' (Arr [Str uid])] w1 = (Inr user, w2)"
  shows "(documents user = [] \<and> (\<forall>v. parseStringify env Undefined = Inr v \<longrightarrow> v = Undefined) \<longrightarrow>
            fst (getUserInfo env uid (tr, w)) = Undefined) \<and>
         (\<forall>d ds. documents user = d # ds \<and> parseStringify env d = Inr d \<longrightarrow>
            fst (getUserInfo env uid (tr, w)) = d)"
proof (intro conjI allI impI)
  assume h: "documents user = [] \<and> (\<forall>v. parseStringify env Undefined = Inr v \<longrightarrow> v = Undefined)"
  show "fst (getUserInfo env uid (tr, w)) = Undefined"
  proof (cases "parseStringify env Undefined")
    case (Inl e)
    with admin query h show ?thesis by (simp add: getUserInfo_def prog_defs js_index_def)
  next
    case (Inr v)
    with h have "v = Undefined" by blast
    with Inr admin query h show ?thesis by (simp add: getUserInfo_def prog_defs js_index_def)
  qed
next
  fix d ds
  assume "documents user = d # ds \<and> parseStringify env d = Inr d"
  with admin query show "fst (getUserInfo env uid (tr, w)) = d"
    by (simp add: getUserInfo_def prog_defs js_index_def)
qed

theorem getUserInfo_first_document_witness:
  "database_listDocuments demo_env (DATABASE_ID demo_env) (USER_COLLECTION_ID demo_env)
     [Equal ''userId'' (Arr [Str ''u-1''])] [] = (Inr \<lparr>total = 0, documents = []\<rparr>, [])
   \<and> parseStringify demo_env Undefined = Inl (ErrorMsg ''SyntaxError'')
   \<and> getUserInfo demo_env ''u-1'' ([], []) =
       (Undefined, ([CreateAdminClient (Inr ()),
                     ListDocuments (Some ''db'') (Some ''users'') [Equal ''userId'' (Arr [Str ''u-1''])]
                       (Inr \<lparr>total = 0, documents = []\<rparr>),
                     ConsoleLog (ErrorMsg ''SyntaxError'')], []))
   \<and> database_listDocuments demo_env (DATABASE_ID demo_env) (USER_COLLECTION_ID demo_env)
     [Equal ''userId'' (Arr [Str ''u-1''])] [demo_user_doc, demo_user_twin]
       = (Inr \<lparr>total = 2, documents = [demo_user_doc, demo_user_twin]\<rparr>, [demo_user_doc, demo_user_twin])
   \<and> fst (getUserInfo demo_env ''u-1'' ([], [demo_user_doc, demo_user_twin])) = demo_user_doc"
proof -
  have a: "\<And>w. createAdminClient demo_env w = (Inr (), w)"
    by (simp add: demo_env_def)
  have q0: "database_listDocuments demo_env (DATABASE_ID demo_env) (USER_COLLECTION_ID demo_env)
     [Equal ''userId'' (Arr [Str ''u-1''])] [] = (Inr \<lparr>total = 0, documents = []\<rparr>, [])"
    by (simp add: demo_defs)
  have q2: "database_listDocuments demo_env (DATABASE_ID demo_env) (USER_COLLECTION_ID demo_env)
     [Equal ''userId'' (Arr [Str ''u-1''])] [demo_user_doc, demo_user_twin]
       = (Inr \<lparr>total = 2, documents = [demo_user_doc, demo_user_twin]\<rparr>, [demo_user_doc, demo_user_twin])"
    by (simp add: demo_defs obj_get_def)
  have p0: "parseStringify demo_env Undefined = Inl (ErrorMsg ''SyntaxError'')"
    by (simp add: demo_defs)
  have p2: "parseStringify demo_env demo_user_doc = Inr demo_user_doc"
    by (simp add: demo_defs)
  have run0: "getUserInfo demo_env ''u-1'' ([], []) =
       (Undefined, ([CreateAdminClient (Inr ()),
                     ListDocuments (Some ''db'') (Some ''users'') [Equal ''userId'' (Arr [Str ''u-1''])]
                       (Inr \<lparr>total = 0, documents = []\<rparr>),
                     ConsoleLog (ErrorMsg ''SyntaxError'')], []))"
    by (simp add: getUserInfo_def prog_defs js_index_def demo_defs)
  have r2: "fst (getUserInfo demo_env ''u-1'' ([], [demo_user_doc, demo_user_twin])) = demo_user_doc"
    using getUserInfo_first_document [OF a q2, where tr = "[]"] p2 by simp
  have r0: "fst (getUserInfo demo_env ''u-1'' ([], [])) = Undefined"
    using getUserInfo_first_document [OF a q0, where tr = "[]"] p0 by simp
  from q0 p0 run0 q2 r2 r0 show ?thesis by simp
qed

section \<open>The linking workflow\<close>

text \<open>
  C6. When the aggregator's account list is empty, selecting the first account throws a
  \<open>TypeError\<close> inside the \<open>try\<close> block; the workflow's handler catches it, logs it and
  the function returns \<open>undefined\<close>. Nothing after the account fetch is called.
\<close>

theorem exchangePublicToken_empty_accounts:
  assumes exchange: "plaid_itemPublicTokenExchange env publicToken w = (Inr response, w1)"
      and accounts: "plaid_accountsGet env (access_token response) w1 = (Inr [], w2)"
  shows "exchangePublicToken_try env publicToken user (tr, w) =
           (Inl TypeError, (tr @ [ItemPublicTokenExchange publicToken (Inr response),
                                  AccountsGet (access_token response) (Inr [])], w2))
       \<and> exchangePublicToken env publicToken user (tr, w) =
           (Undefined, (tr @ [ItemPublicTokenExchange publicToken (Inr response),
                              AccountsGet (access_token response) (Inr []),
                              ConsoleError ''An error occurred while creating exchanging token:'' TypeError], w2))"
  using exchange accounts by (simp add: exchangePublicToken_def exchangePublicToken_try_def prog_defs)

theorem exchangePublicToken_empty_accounts_witness:
  "plaid_itemPublicTokenExchange empty_accounts_env ''public-1'' []
     = (Inr \<lparr>access_token = ''access-1'', item_id = ''item-1''\<rparr>, [])
   \<and> plaid_accountsGet empty_accounts_env ''access-1'' [] = (Inr [], [])
   \<and> exchangePublicToken empty_accounts_env ''public-1'' demo_user ([], []) =
       (Undefined, ([ItemPublicTokenExchange ''public-1'' (Inr \<lparr>access_token = ''access-1'', item_id = ''item-1''\<rparr>),
                     AccountsGet ''access-1'' (Inr []),
                     ConsoleError ''An error occurred while creating exchanging token:'' TypeError], []))"
proof -
  have e: "plaid_itemPublicTokenExchange empty_accounts_env ''public-1'' []
     = (Inr \<lparr>access_token = ''access-1'', item_id = ''item-1''\<rparr>, [])"
    by (simp add: empty_accounts_env_def demo_env_def)
  have g: "plaid_accountsGet empty_accounts_env
             (access_token \<lparr>access_token = ''access-1'', item_id = ''item-1''\<rparr>) [] = (Inr [], [])"
    by (simp add: empty_accounts_env_def demo_env_def)
  from exchangePublicToken_empty_accounts [OF e g, where user = demo_user and tr = "[]"] e g
  show ?thesis by simp
qed

text \<open>
  \<open>createBankAccount\<close>: a failure of the client factory or of the store is swallowed
  without a console line, and the function yields \<open>undefined\<close>.
\<close>

lemma createBankAccount_run:
  "createBankAccount env props (tr, w) =
     (case createAdminClient env w of
        (Inl e, w1) \<Rightarrow> (Undefined, (tr @ [CreateAdminClient (Inl e)], w1))
      | (Inr u, w1) \<Rightarrow>
          (case ID_unique env w1 of (docId, w2) \<Rightarrow>
           case database_createDocument env (DATABASE_ID env) (BANK_COLLECTION_ID env) docId
                  (Obj [(''userId'', Str (bank_userId props)),
                        (''bankId'', Str (bankId props)),
                        (''accountId'', Str (accountId props)),
                        (''accessToken'', Str (accessToken props)),
                        (''fundingSourceUrl'', fundingSourceUrl props),
                        (''shareableId'', Str (shareableId props))]) w2 of (rd, w3) \<Rightarrow>
             ((case rd of Inl e \<Rightarrow> Undefined
                        | Inr bankAccount \<Rightarrow> (case parseStringify env bankAccount of Inl e \<Rightarrow> Undefined | Inr v \<Rightarrow> v)),
              (tr @ [CreateAdminClient (Inr u),
                     CreateDocument (DATABASE_ID env) (BANK_COLLECTION_ID env) docId
                       (Obj [(''userId'', Str (bank_userId props)),
                             (''bankId'', Str (bankId props)),
                             (''accountId'', Str (accountId props)),
                             (''accessToken'', Str (accessToken props)),
                             (''fundingSourceUrl'', fundingSourceUrl props),
                             (''shareableId'', Str (shareableId props))]) rd], w3))))"
proof -
  obtain ra w1 where 1: "createAdminClient env w = (ra, w1)"
    by (cases "createAdminClient env w") blast
  obtain docId w2 where 2: "ID_unique env w1 = (docId, w2)"
    by (cases "ID_unique env w1") blast
  obtain rd w3 where 3: "database_createDocument env (DATABASE_ID env) (BANK_COLLECTION_ID env) docId
                  (Obj [(''userId'', Str (bank_userId props)),
                        (''bankId'', Str (bankId props)),
                        (''accountId'', Str (accountId props)),
                        (''accessToken'', Str (accessToken props)),
                        (''fundingSourceUrl'', fundingSourceUrl props),
                        (''shareableId'', Str (shareableId props))]) w2 = (rd, w3)"
    by (cases "database_createDocument env (DATABASE_ID env) (BANK_COLLECTION_ID env) docId
                  (Obj [(''userId'', Str (bank_userId props)),
                        (''bankId'', Str (bankId props)),
                        (''accountId'', Str (accountId props)),
                        (''accessToken'', Str (accessToken props)),
                        (''fundingSourceUrl'', fundingSourceUrl props),
                        (''shareableId'', Str (shareableId props))]) w2") blast
  show ?thesis
  proof (cases ra)
    case (Inl e)
    then show ?thesis using 1 by (simp add: createBankAccount_def prog_defs)
  next
    case (Inr u)
    show ?thesis
    proof (cases rd)
      case (Inl e)
      then show ?thesis using 1 2 3 Inr by (simp add: createBankAccount_def prog_defs)
    next
      case (Inr bankAccount)
      then show ?thesis using 1 2 3 \<open>ra = Inr u\<close>
        by (cases "parseStringify env bankAccount") (simp_all add: createBankAccount_def prog_defs)
    qed
  qed
qed

subsection \<open>Order of the steps\<close>




lemma not_registered_auth [simp]:
  "\<not> funding_registered c (DwollaPost ''on-demand-authorizations'' b r)"
  by (cases r) simp_all




text \<open>
  What \<open>addFundingSource\<close> returns is truthy exactly when its record of calls holds a
  registration POST answered with a non-empty \<open>location\<close>.
\<close>

lemma addFundingSource_truthy_iff_registered:
  assumes "addFundingSource env cust tok nm ([], w) = (v, (tr, w'))"
  shows "truthy v = (\<exists>e \<in> set tr. funding_registered cust e)"
proof -
  obtain ra w1 where 1: "dwolla_post env ''on-demand-authorizations'' None w = (ra, w1)"
    by (cases "dwolla_post env ''on-demand-authorizations'' None w") blast
  obtain rf w2 where 2: "dwolla_post env (''customers/'' @ cust @ ''/funding-sources'')
      (Some (Obj [(''name'', Str nm), (''plaidToken'', Str tok)])) w1 = (rf, w2)"
    by (cases "dwolla_post env (''customers/'' @ cust @ ''/funding-sources'')
      (Some (Obj [(''name'', Str nm), (''plaidToken'', Str tok)])) w1") blast
  show ?thesis
  proof (cases rf)
    case (Inl e)
    with assms 1 2 show ?thesis
      by (cases ra)
         (auto simp: addFundingSource_run createOnDemandAuthorization_run createFundingSource_run)
  next
    case (Inr res)
    with assms 1 2 show ?thesis
      by (cases ra; cases "location res")
         (auto simp: addFundingSource_run createOnDemandAuthorization_run createFundingSource_run)
  qed
qed






text \<open>
  C10. Whenever the steps before persistence succeed, the store rejects the Bank document
  and the revalidation goes through, \<open>createBankAccount\<close> swallows the rejection and
  yields \<open>undefined\<close>, its caller does not look at that result, and
  \<open>exchangePublicToken\<close> returns \<open>{publicTokenExchange: "complete"}\<close>.
\<close>

theorem exchangePublicToken_complete_without_bank_record:
  assumes exchange: "plaid_itemPublicTokenExchange env publicToken w = (Inr response, w1)"
      and accounts: "plaid_accountsGet env (access_token response) w1 = (Inr (accountData # rest), w2)"
      and token: "plaid_processorTokenCreate env (access_token response) (account_id accountData) ''dwolla'' w2
                    = (Inr processorToken, w3)"
      and funding: "addFundingSource env (dwollaCustomerId user) processorToken (name accountData)
                      ([ItemPublicTokenExchange publicToken (Inr response),
                        AccountsGet (access_token response) (Inr (accountData # rest)),
                        ProcessorTokenCreate (access_token response) (account_id accountData) ''dwolla''
                          (Inr processorToken)], w3)
                    = (Str url, (tr4, w4))"
      and url: "url \<noteq> []"
      and encrypt: "encryptId env (account_id accountData) = Inr encrypted"
      and admin: "createAdminClient env w4 = (Inr (), w5)"
      and unique: "ID_unique env w5 = (docId, w6)"
      and rejected: "database_createDocument env (DATABASE_ID env) (BANK_COLLECTION_ID env) docId
                       (Obj [(''userId'', Str (user_dollar_id user)),
                             (''bankId'', Str (item_id response)),
                             (''accountId'', Str (account_id accountData)),
                             (''accessToken'', Str (access_token response)),
                             (''fundingSourceUrl'', Str url),
                             (''shareableId'', Str encrypted)]) w6
                     = (Inl e, w7)"
      and revalidate: "revalidatePath env ''/'' w7 = (Inr (), w8)"
      and copy: "parseStringify env (Obj [(''publicTokenExchange'', Str ''complete'')])
                   = Inr (Obj [(''publicTokenExchange'', Str ''complete'')])"
  shows "createBankAccount env
           \<lparr>bank_userId = user_dollar_id user,
            bankId = item_id response,
            accountId = account_id accountData,
            accessToken = access_token response,
            fundingSourceUrl = Str url,
            shareableId = encrypted\<rparr> (tr4, w4)
         = (Undefined,
            (tr4 @ [CreateAdminClient (Inr ()),
                    CreateDocument (DATABASE_ID env) (BANK_COLLECTION_ID env) docId
                      (Obj [(''userId'', Str (user_dollar_id user)),
                            (''bankId'', Str (item_id response)),
                            (''accountId'', Str (account_id accountData)),
                            (''accessToken'', Str (access_token response)),
                            (''fundingSourceUrl'', Str url),
                            (''shareableId'', Str encrypted)]) (Inl e)], w7))
       \<and> exchangePublicToken env publicToken user ([], w)
         = (Obj [(''publicTokenExchange'', Str ''complete'')],
            (tr4 @ [CreateAdminClient (Inr ()),
                    CreateDocument (DATABASE_ID env) (BANK_COLLECTION_ID env) docId
                      (Obj [(''userId'', Str (user_dollar_id user)),
                            (''bankId'', Str (item_id response)),
                            (''accountId'', Str (account_id accountData)),
                            (''accessToken'', Str (access_token response)),
                            (''fundingSourceUrl'', Str url),
                            (''shareableId'', Str encrypted)]) (Inl e),
                    RevalidatePath ''/'' (Inr ())], w8))"
proof
  show "createBankAccount env
           \<lparr>bank_userId = user_dollar_id user,
            bankId = item_id response,
            accountId = account_id accountData,
            accessToken = access_token response,
            fundingSourceUrl = Str url,
            shareableId = encrypted\<rparr> (tr4, w4)
         = (Undefined,
            (tr4 @ [CreateAdminClient (Inr ()),
                    CreateDocument (DATABASE_ID env) (BANK_COLLECTION_ID env) docId
                      (Obj [(''userId'', Str (user_dollar_id user)),
                            (''bankId'', Str (item_id response)),
                            (''accountId'', Str (account_id accountData)),
                            (''accessToken'', Str (access_token response)),
                            (''fundingSourceUrl'', Str url),
                            (''shareableId'', Str encrypted)]) (Inl e)], w7))"
    using admin unique rejected by (simp add: createBankAccount_run)
  then show "exchangePublicToken env publicToken user ([], w)
         = (Obj [(''publicTokenExchange'', Str ''complete'')],
            (tr4 @ [CreateAdminClient (Inr ()),
                    CreateDocument (DATABASE_ID env) (BANK_COLLECTION_ID env) docId
                      (Obj [(''userId'', Str (user_dollar_id user)),
                            (''bankId'', Str (item_id response)),
                            (''accountId'', Str (account_id accountData)),
                            (''accessToken'', Str (access_token response)),
                            (''fundingSourceUrl'', Str url),
                            (''shareableId'', Str encrypted)]) (Inl e),
                    RevalidatePath ''/'' (Inr ())], w8))"
    using exchange accounts token funding url encrypt revalidate copy
    by (simp add: exchangePublicToken_def exchangePublicToken_try_def prog_defs)
qed

theorem exchangePublicToken_complete_without_bank_record_witness:
  "database_createDocument store_down_env (Some ''db'') (Some ''banks'') ''unique()'' demo_bank_record []
     = (Inl (ServiceError ''document_invalid_structure''), [])
   \<and> createBankAccount store_down_env
       \<lparr>bank_userId = ''u-1'', bankId = ''item-1'', accountId = ''acc-1'', accessToken = ''access-1'',
        fundingSourceUrl = Str ''https://api.dwolla.com/customers/c-9/funding-sources/42'',
        shareableId = ''enc:acc-1''\<rparr> (demo_link_prefix, [])
     = (Undefined,
        (demo_link_prefix @
           [CreateAdminClient (Inr ()),
            CreateDocument (Some ''db'') (Some ''banks'') ''unique()'' demo_bank_record
              (Inl (ServiceError ''document_invalid_structure''))], []))
   \<and> exchangePublicToken store_down_env ''public-1'' demo_user ([], [])
     = (Obj [(''publicTokenExchange'', Str ''complete'')],
        (demo_link_prefix @
           [CreateAdminClient (Inr ()),
            CreateDocument (Some ''db'') (Some ''banks'') ''unique()'' demo_bank_record
              (Inl (ServiceError ''document_invalid_structure'')),
            RevalidatePath ''/'' (Inr ())], []))"
proof -
  let ?R = "\<lparr>access_token = ''access-1'', item_id = ''item-1''\<rparr>"
  let ?A = "\<lparr>account_id = ''acc-1'', name = ''Checking''\<rparr>"
  let ?U = "''https://api.dwolla.com/customers/c-9/funding-sources/42''"
  note env_defs = store_down_env_def demo_defs
  have f1: "plaid_itemPublicTokenExchange store_down_env ''public-1'' [] = (Inr ?R, [])"
    by (simp add: env_defs)
  have f2: "plaid_accountsGet store_down_env (access_token ?R) [] = (Inr (?A # []), [])"
    by (simp add: env_defs)
  have f3: "plaid_processorTokenCreate store_down_env (access_token ?R) (account_id ?A) ''dwolla'' []
              = (Inr ''processor-1'', [])"
    by (simp add: env_defs)
  have f4: "addFundingSource store_down_env (dwollaCustomerId demo_user) ''processor-1'' (name ?A)
              ([ItemPublicTokenExchange ''public-1'' (Inr ?R),
                AccountsGet (access_token ?R) (Inr (?A # [])),
                ProcessorTokenCreate (access_token ?R) (account_id ?A) ''dwolla'' (Inr ''processor-1'')], [])
              = (Str ?U, (demo_link_prefix, []))"
    by (simp add: addFundingSource_run createOnDemandAuthorization_run createFundingSource_run
        env_defs demo_link_prefix_def)
  have f5: "?U \<noteq> []"
    by simp
  have f6: "encryptId store_down_env (account_id ?A) = Inr ''enc:acc-1''"
    by (simp add: env_defs)
  have f7: "createAdminClient store_down_env [] = (Inr (), [])"
    by (simp add: env_defs)
  have f8: "ID_unique store_down_env [] = (''unique()'', [])"
    by (simp add: env_defs)
  have f9: "database_createDocument store_down_env (DATABASE_ID store_down_env)
              (BANK_COLLECTION_ID store_down_env) ''unique()''
              (Obj [(''userId'', Str (user_dollar_id demo_user)),
                    (''bankId'', Str (item_id ?R)),
                    (''accountId'', Str (account_id ?A)),
                    (''accessToken'', Str (access_token ?R)),
                    (''fundingSourceUrl'', Str ?U),
                    (''shareableId'', Str ''enc:acc-1'')]) []
              = (Inl (ServiceError ''document_invalid_structure''), [])"
    by (simp add: env_defs)
  have f10: "revalidatePath store_down_env ''/'' [] = (Inr (), [])"
    by (simp add: env_defs)
  have f11: "parseStringify store_down_env (Obj [(''publicTokenExchange'', Str ''complete'')])
               = Inr (Obj [(''publicTokenExchange'', Str ''complete'')])"
    by (simp add: env_defs)
  have d: "database_createDocument store_down_env (Some ''db'') (Some ''banks'') ''unique()'' demo_bank_record []
     = (Inl (ServiceError ''document_invalid_structure''), [])"
    by (simp add: env_defs)
  from exchangePublicToken_complete_without_bank_record [OF f1 f2 f3 f4 f5 f6 f7 f8 f9 f10 f11] d
  show ?thesis
    by (simp add: env_defs demo_bank_record_def)
qed

section \<open>Sign-up\<close>

lemma createDwollaCustomer_truthyE:
  assumes "liftT (createDwollaCustomer env body) (tr, w) = (Inr u, s1)" and "truthy u"
  obtains res url w1 where "dwolla_post env ''customers'' (Some body) w = (Inr res, w1)"
    and "location res = Some url" and "url \<noteq> []" and "u = Str url"
    and "s1 = (tr @ [DwollaPost ''customers'' (Some body) (Inr res)], w1)"
proof -
  obtain r w1 where 1: "dwolla_post env ''customers'' (Some body) w = (r, w1)"
    by (cases "dwolla_post env ''customers'' (Some body) w") blast
  show ?thesis
  proof (cases r)
    case (Inl e)
    with assms 1 show ?thesis by (simp add: createDwollaCustomer_def prog_defs)
  next
    case (Inr res)
    with assms 1 that show ?thesis
      by (cases "location res") (auto simp: createDwollaCustomer_def prog_defs)
  qed
qed

text \<open>
  C2. When \<open>signUp\<close> succeeds (its \<open>try\<close> block returns), the run has made exactly these
  calls, each once and each answered: the admin client, one Identity-service account,
  one processor customer, one User document, one session, and then the session cookie.
  The processor answered with a non-empty customer URL, and the User document's
  \<open>dwollaCustomerId\<close> is what \<open>extractCustomerIdFromUrl\<close> makes of that URL.
\<close>

theorem signUp_success_effects:
  assumes run: "signUp_try env p ([], w) = (Inr v, (tr, w'))"
  shows "\<exists>accId acct res url cid docId fields newUser sess.
     tr = [CreateAdminClient (Inr ()),
           AccountCreate accId (email p) (password p) (firstName p @ '' '' @ lastName p) (Inr (Some acct)),
           DwollaPost ''customers'' (Some (Obj (spread (userData_of p) [(''type'', Str ''personal'')]))) (Inr res),
           CreateDocument (DATABASE_ID env) (USER_COLLECTION_ID env) docId (Obj fields) (Inr newUser),
           CreateEmailPasswordSession (email p) (password p) (Inr sess),
           CookiesSet ''appwrite-session'' (secret sess) cookie_options (Inr ())]
     \<and> location res = Some url \<and> url \<noteq> [] \<and> extractCustomerIdFromUrl env (Str url) = Inr cid
     \<and> obj_get fields ''dwollaCustomerId'' = Str cid
     \<and> obj_get fields ''userId'' = Str (dollar_id acct)
     \<and> obj_get fields ''dwollaCustomerUrl'' = Str url
     \<and> parseStringify env newUser = Inr v
     \<and> signUp env p ([], w) = (v, (tr, w'))"
proof -
  have ret: "signUp env p ([], w) = (v, (tr, w'))"
    using run by (simp add: signUp_def try_catch_def)
  from run show ?thesis
    unfolding ret signUp_try_def
    by (elim bindE_InrE call_InrE idUnique_E)
       (auto split: option.splits if_splits
          elim!: throwE_E bindE_InrE call_InrE idUnique_E liftE_E createDwollaCustomer_truthyE
          simp: obj_get_spread)
qed

theorem signUp_success_effects_witness:
  "signUp_try demo_env demo_signup ([], []) =
     (Inr demo_new_user,
      ([CreateAdminClient (Inr ()),
        AccountCreate ''unique()'' ''a@b.com'' ''pw'' ''A B'' (Inr (Some \<lparr>dollar_id = ''unique()''\<rparr>)),
        DwollaPost ''customers''
          (Some (Obj [(''email'', Str ''a@b.com''), (''firstName'', Str ''A''), (''lastName'', Str ''B''),
                      (''type'', Str ''personal'')]))
          (Inr \<lparr>location = Some ''https://api.dwolla.com/customers/42'', body_links = demo_links\<rparr>),
        CreateDocument (Some ''db'') (Some ''users'') ''unique()'' demo_new_user (Inr demo_new_user),
        CreateEmailPasswordSession ''a@b.com'' ''pw'' (Inr \<lparr>secret = ''s3cr3t'', userId = ''u-1''\<rparr>),
        CookiesSet ''appwrite-session'' ''s3cr3t'' cookie_options (Inr ())],
       [demo_new_user]))
   \<and> extractCustomerIdFromUrl demo_env (Str ''https://api.dwolla.com/customers/42'') = Inr ''42''
   \<and> (\<exists>fields. demo_new_user = Obj fields \<and> obj_get fields ''dwollaCustomerId'' = Str ''42'')
   \<and> fst (signUp demo_env demo_signup ([], [])) = demo_new_user"
proof -
  have run: "signUp_try demo_env demo_signup ([], []) =
     (Inr demo_new_user,
      ([CreateAdminClient (Inr ()),
        AccountCreate ''unique()'' ''a@b.com'' ''pw'' ''A B'' (Inr (Some \<lparr>dollar_id = ''unique()''\<rparr>)),
        DwollaPost ''customers''
          (Some (Obj [(''email'', Str ''a@b.com''), (''firstName'', Str ''A''), (''lastName'', Str ''B''),
                      (''type'', Str ''personal'')]))
          (Inr \<lparr>location = Some ''https://api.dwolla.com/customers/42'', body_links = demo_links\<rparr>),
        CreateDocument (Some ''db'') (Some ''users'') ''unique()'' demo_new_user (Inr demo_new_user),
        CreateEmailPasswordSession ''a@b.com'' ''pw'' (Inr \<lparr>secret = ''s3cr3t'', userId = ''u-1''\<rparr>),
        CookiesSet ''appwrite-session'' ''s3cr3t'' cookie_options (Inr ())],
       [demo_new_user]))"
    by (simp add: signUp_try_def createDwollaCustomer_def prog_defs userData_of_def spread_def
        demo_env_def demo_signup_def demo_new_user_def json_copy_def last_segment_def)
  have x: "extractCustomerIdFromUrl demo_env (Str ''https://api.dwolla.com/customers/42'') = Inr ''42''"
    by (simp add: demo_env_def last_segment_def)
  from signUp_success_effects [OF run]
  have "(\<exists>fields. demo_new_user = Obj fields \<and> obj_get fields ''dwollaCustomerId'' = Str ''42'')
        \<and> fst (signUp demo_env demo_signup ([], [])) = demo_new_user"
    using x by auto
  with run x show ?thesis by simp
qed

section \<open>Transfers\<close>

text \<open>
  C4, as the claim states it: the documents list of \<open>getTransactionsByBankId\<close> has as many
  entries as the result's \<open>total\<close>. That fails when the store answers with a page: 26
  matches as sender, 25 of them in the answer.
\<close>

theorem getTransactionsByBankId_page_shorter_than_total:
  "fst (getTransactionsByBankId paged_env ''X'' ([], [])) =
     Obj [(''total'', Num 26), (''documents'', Arr (replicate 25 demo_transfer))]
   \<and> length (replicate 25 demo_transfer) \<noteq> 26"
  by (simp add: getTransactionsByBankId_def prog_defs paged_env_def demo_env_def json_copy_def)

text \<open>
  C4, amended. Once both queries are answered, the result's \<open>total\<close> is the sum of the two
  totals and its documents list is the sender answer's documents followed by the
  receiver answer's; its length is the sum of the two lengths, and equals \<open>total\<close>
  whenever each answer holds as many documents as its own \<open>total\<close> says.
\<close>

theorem getTransactionsByBankId_sum_and_concat:
  assumes admin: "createAdminClient env w = (Inr (), w1)"
      and sender: "database_listDocuments env (DATABASE_ID env) (TRANSACTION_COLLECTION_ID env)
                     [Equal ''senderBankId'' (Str bid)] w1 = (Inr senderTransactions, w2)"
      and receiver: "database_listDocuments env (DATABASE_ID env) (TRANSACTION_COLLECTION_ID env)
                     [Equal ''receiverBankId'' (Str bid)] w2 = (Inr receiverTransactions, w3)"
      and copy: "parseStringify env
                   (Obj [(''total'', Num (int (total senderTransactions + total receiverTransactions))),
                         (''documents'', Arr (documents senderTransactions @ documents receiverTransactions))])
                 = Inr (Obj [(''total'', Num (int (total senderTransactions + total receiverTransactions))),
                             (''documents'', Arr (documents senderTransactions @ documents receiverTransactions))])"
  shows "fst (getTransactionsByBankId env bid (tr, w)) =
           Obj [(''total'', Num (int (total senderTransactions + total receiverTransactions))),
                (''documents'', Arr (documents senderTransactions @ documents receiverTransactions))]
       \<and> length (documents senderTransactions @ documents receiverTransactions)
           = length (documents senderTransactions) + length (documents receiverTransactions)
       \<and> (length (documents senderTransactions) = total senderTransactions
            \<and> length (documents receiverTransactions) = total receiverTransactions
          \<longrightarrow> length (documents senderTransactions @ documents receiverTransactions)
                = total senderTransactions + total receiverTransactions)"
  using admin sender receiver copy by (simp add: getTransactionsByBankId_def prog_defs)

theorem getTransactionsByBankId_sum_and_concat_witness:
  "database_listDocuments demo_env (DATABASE_ID demo_env) (TRANSACTION_COLLECTION_ID demo_env)
     [Equal ''senderBankId'' (Str ''X'')] [demo_transfer, demo_transfer_second, demo_transfer_back]
     = (Inr \<lparr>total = 2, documents = [demo_transfer, demo_transfer_second]\<rparr>,
        [demo_transfer, demo_transfer_second, demo_transfer_back])
   \<and> database_listDocuments demo_env (DATABASE_ID demo_env) (TRANSACTION_COLLECTION_ID demo_env)
     [Equal ''receiverBankId'' (Str ''X'')] [demo_transfer, demo_transfer_second, demo_transfer_back]
     = (Inr \<lparr>total = 1, documents = [demo_transfer_back]\<rparr>,
        [demo_transfer, demo_transfer_second, demo_transfer_back])
   \<and> fst (getTransactionsByBankId demo_env ''X''
            ([], [demo_transfer, demo_transfer_second, demo_transfer_back])) =
       Obj [(''total'', Num 3),
            (''documents'', Arr [demo_transfer, demo_transfer_second, demo_transfer_back])]
   \<and> length [demo_transfer, demo_transfer_second, demo_transfer_back] = 3"
proof -
  let ?W = "[demo_transfer, demo_transfer_second, demo_transfer_back]"
  let ?S = "\<lparr>total = 2, documents = [demo_transfer, demo_transfer_second]\<rparr>"
  let ?R = "\<lparr>total = 1, documents = [demo_transfer_back]\<rparr>"
  have a: "createAdminClient demo_env ?W = (Inr (), ?W)"
    by (simp add: demo_env_def)
  have s: "database_listDocuments demo_env (DATABASE_ID demo_env) (TRANSACTION_COLLECTION_ID demo_env)
     [Equal ''senderBankId'' (Str ''X'')] ?W = (Inr ?S, ?W)"
    by (simp add: demo_defs obj_get_def)
  have r: "database_listDocuments demo_env (DATABASE_ID demo_env) (TRANSACTION_COLLECTION_ID demo_env)
     [Equal ''receiverBankId'' (Str ''X'')] ?W = (Inr ?R, ?W)"
    by (simp add: demo_defs obj_get_def)
  have c: "parseStringify demo_env
             (Obj [(''total'', Num (int (total ?S + total ?R))),
                   (''documents'', Arr (documents ?S @ documents ?R))])
           = Inr (Obj [(''total'', Num (int (total ?S + total ?R))),
                       (''documents'', Arr (documents ?S @ documents ?R))])"
    by (simp add: demo_env_def json_copy_def)
  from getTransactionsByBankId_sum_and_concat [OF a s r c, where tr = "[]"] s r
  show ?thesis by simp
qed

text \<open>
  C7, as the claim states it: for every input the submitted document's \<open>channel\<close> is
  \<open>"Online"\<close>. The input's properties are spread after the two fixed ones, so an input that
  carries a \<open>channel\<close> of its own replaces the fixed value.
\<close>

theorem createTransaction_channel_overridden:
  "createTransaction demo_env demo_transaction_with_channel ([], []) =
     (Obj [(''channel'', Str ''ATM''), (''category'', Str ''Transfer''), (''currency'', Str ''USD''),
           (''amount'', Str ''10''), (''receiverBankId'', Str ''Y''), (''senderBankId'', Str ''X'')],
      ([CreateAdminClient (Inr ()),
        CreateDocument (Some ''db'') (Some ''transactions'') ''unique()''
          (Obj [(''channel'', Str ''ATM''), (''category'', Str ''Transfer''), (''currency'', Str ''USD''),
                (''amount'', Str ''10''), (''receiverBankId'', Str ''Y''), (''senderBankId'', Str ''X'')])
          (Inr (Obj [(''channel'', Str ''ATM''), (''category'', Str ''Transfer''), (''currency'', Str ''USD''),
                     (''amount'', Str ''10''), (''receiverBankId'', Str ''Y''), (''senderBankId'', Str ''X'')]))],
       [Obj [(''channel'', Str ''ATM''), (''category'', Str ''Transfer''), (''currency'', Str ''USD''),
             (''amount'', Str ''10''), (''receiverBankId'', Str ''Y''), (''senderBankId'', Str ''X'')]]))
   \<and> obj_get [(''channel'', Str ''ATM''), (''category'', Str ''Transfer''), (''currency'', Str ''USD''),
              (''amount'', Str ''10''), (''receiverBankId'', Str ''Y''), (''senderBankId'', Str ''X'')]
        ''channel'' \<noteq> Str ''Online''"
  by (simp add: createTransaction_def prog_defs spread_def demo_env_def json_copy_def
      demo_transaction_with_channel_def obj_get_def)

text \<open>
  C7, amended. Whenever \<open>createTransaction\<close> reaches the store, the document it submits
  holds every property of the input with the input's value, and holds \<open>channel\<close>
  \<open>"Online"\<close> and \<open>category\<close> \<open>"Transfer"\<close> unless the input carries a property of that
  name itself.
\<close>

theorem createTransaction_document:
  assumes admin: "createAdminClient env w = (Inr (), w1)"
      and unique: "ID_unique env w1 = (docId, w2)"
  shows "\<exists>fields r rest.
           fst (snd (createTransaction env transaction ([], w))) =
             CreateAdminClient (Inr ()) #
             CreateDocument (DATABASE_ID env) (TRANSACTION_COLLECTION_ID env) docId (Obj fields) r # rest
         \<and> (\<forall>k \<in> fst ` set transaction. obj_get fields k = obj_get transaction k)
         \<and> (''channel'' \<notin> fst ` set transaction \<longrightarrow> obj_get fields ''channel'' = Str ''Online'')
         \<and> (''category'' \<notin> fst ` set transaction \<longrightarrow> obj_get fields ''category'' = Str ''Transfer'')"
proof -
  let ?fields = "spread [(''channel'', Str ''Online''), (''category'', Str ''Transfer'')] transaction"
  obtain r w3 where store: "database_createDocument env (DATABASE_ID env) (TRANSACTION_COLLECTION_ID env)
      docId (Obj ?fields) w2 = (r, w3)"
    by (cases "database_createDocument env (DATABASE_ID env) (TRANSACTION_COLLECTION_ID env)
      docId (Obj ?fields) w2") blast
  have calls: "\<exists>rest. fst (snd (createTransaction env transaction ([], w))) =
             CreateAdminClient (Inr ()) #
             CreateDocument (DATABASE_ID env) (TRANSACTION_COLLECTION_ID env) docId (Obj ?fields) r # rest"
  proof (cases r)
    case (Inl e)
    with admin unique store show ?thesis by (simp add: createTransaction_def prog_defs)
  next
    case (Inr newTransaction)
    with admin unique store show ?thesis
      by (cases "parseStringify env newTransaction") (simp_all add: createTransaction_def prog_defs)
  qed
  have own: "\<forall>k \<in> fst ` set transaction. obj_get ?fields k = obj_get transaction k"
  proof
    fix k assume "k \<in> fst ` set transaction"
    then obtain v where "map_of transaction k = Some v"
      by (metis domD dom_map_of_conv_image_fst)
    then show "obj_get ?fields k = obj_get transaction k"
      by (simp add: obj_get_spread) (simp add: obj_get_def)
  qed
  have fixed: "obj_get ?fields k = obj_get [(''channel'', Str ''Online''), (''category'', Str ''Transfer'')] k"
    if "k \<notin> fst ` set transaction" for k
  proof -
    from that have "map_of transaction k = None"
      by (simp add: map_of_eq_None_iff)
    then show ?thesis by (simp add: obj_get_spread)
  qed
  have channel: "''channel'' \<notin> fst ` set transaction \<longrightarrow> obj_get ?fields ''channel'' = Str ''Online''"
    using fixed [of "''channel''"] by (simp add: obj_get_def)
  have category: "''category'' \<notin> fst ` set transaction \<longrightarrow> obj_get ?fields ''category'' = Str ''Transfer''"
    using fixed [of "''category''"] by (simp add: obj_get_def)
  from calls own channel category show ?thesis by blast
qed

theorem createTransaction_document_witness:
  "createTransaction demo_env demo_transaction ([], []) =
     (Obj [(''channel'', Str ''Online''), (''category'', Str ''Transfer''), (''currency'', Str ''USD''),
           (''amount'', Str ''10''), (''receiverBankId'', Str ''Y''), (''senderBankId'', Str ''X'')],
      ([CreateAdminClient (Inr ()),
        CreateDocument (Some ''db'') (Some ''transactions'') ''unique()''
          (Obj [(''channel'', Str ''Online''), (''category'', Str ''Transfer''), (''currency'', Str ''USD''),
                (''amount'', Str ''10''), (''receiverBankId'', Str ''Y''), (''senderBankId'', Str ''X'')])
          (Inr (Obj [(''channel'', Str ''Online''), (''category'', Str ''Transfer''), (''currency'', Str ''USD''),
                     (''amount'', Str ''10''), (''receiverBankId'', Str ''Y''), (''senderBankId'', Str ''X'')]))],
       [Obj [(''channel'', Str ''Online''), (''category'', Str ''Transfer''), (''currency'', Str ''USD''),
             (''amount'', Str ''10''), (''receiverBankId'', Str ''Y''), (''senderBankId'', Str ''X'')]]))
   \<and> ''channel'' \<notin> fst ` set demo_transaction
   \<and> ''category'' \<notin> fst ` set demo_transaction
   \<and> (\<exists>fields r rest.
         fst (snd (createTransaction demo_env demo_transaction ([], []))) =
           CreateAdminClient (Inr ()) #
           CreateDocument (DATABASE_ID demo_env) (TRANSACTION_COLLECTION_ID demo_env) ''unique()'' (Obj fields) r # rest
         \<and> obj_get fields ''senderBankId'' = Str ''X''
         \<and> obj_get fields ''receiverBankId'' = Str ''Y''
         \<and> obj_get fields ''amount'' = Str ''10''
         \<and> obj_get fields ''currency'' = Str ''USD''
         \<and> obj_get fields ''channel'' = Str ''Online''
         \<and> obj_get fields ''category'' = Str ''Transfer'')"
proof -
  have a: "createAdminClient demo_env [] = (Inr (), [])"
    by (simp add: demo_env_def)
  have u: "ID_unique demo_env [] = (''unique()'', [])"
    by (simp add: demo_env_def)
  have run: "createTransaction demo_env demo_transaction ([], []) =
     (Obj [(''channel'', Str ''Online''), (''category'', Str ''Transfer''), (''currency'', Str ''USD''),
           (''amount'', Str ''10''), (''receiverBankId'', Str ''Y''), (''senderBankId'', Str ''X'')],
      ([CreateAdminClient (Inr ()),
        CreateDocument (Some ''db'') (Some ''transactions'') ''unique()''
          (Obj [(''channel'', Str ''Online''), (''category'', Str ''Transfer''), (''currency'', Str ''USD''),
                (''amount'', Str ''10''), (''receiverBankId'', Str ''Y''), (''senderBankId'', Str ''X'')])
          (Inr (Obj [(''channel'', Str ''Online''), (''category'', Str ''Transfer''), (''currency'', Str ''USD''),
                     (''amount'', Str ''10''), (''receiverBankId'', Str ''Y''), (''senderBankId'', Str ''X'')]))],
       [Obj [(''channel'', Str ''Online''), (''category'', Str ''Transfer''), (''currency'', Str ''USD''),
             (''amount'', Str ''10''), (''receiverBankId'', Str ''Y''), (''senderBankId'', Str ''X'')]]))"
    by (simp add: createTransaction_def prog_defs spread_def demo_env_def json_copy_def
        demo_transaction_def)
  have keys: "''channel'' \<notin> fst ` set demo_transaction" "''category'' \<notin> fst ` set demo_transaction"
    by (simp_all add: demo_transaction_def)
  have vals: "obj_get demo_transaction ''senderBankId'' = Str ''X''"
             "obj_get demo_transaction ''receiverBankId'' = Str ''Y''"
             "obj_get demo_transaction ''amount'' = Str ''10''"
             "obj_get demo_transaction ''currency'' = Str ''USD''"
    by (simp_all add: demo_transaction_def obj_get_def)
  have mem: "''senderBankId'' \<in> fst ` set demo_transaction" "''receiverBankId'' \<in> fst ` set demo_transaction"
            "''amount'' \<in> fst ` set demo_transaction" "''currency'' \<in> fst ` set demo_transaction"
    by (simp_all add: demo_transaction_def)
  from createTransaction_document [OF a u, where transaction = demo_transaction]
  obtain fields r rest where
    t: "fst (snd (createTransaction demo_env demo_transaction ([], []))) =
           CreateAdminClient (Inr ()) #
           CreateDocument (DATABASE_ID demo_env) (TRANSACTION_COLLECTION_ID demo_env) ''unique()'' (Obj fields) r # rest"
    and o: "\<forall>k \<in> fst ` set demo_transaction. obj_get fields k = obj_get demo_transaction k"
    and c1: "''channel'' \<notin> fst ` set demo_transaction \<longrightarrow> obj_get fields ''channel'' = Str ''Online''"
    and c2: "''category'' \<notin> fst ` set demo_transaction \<longrightarrow> obj_get fields ''category'' = Str ''Transfer''"
    by blast
  from o mem vals have "obj_get fields ''senderBankId'' = Str ''X''"
    "obj_get fields ''receiverBankId'' = Str ''Y''"
    "obj_get fields ''amount'' = Str ''10''"
    "obj_get fields ''currency'' = Str ''USD''"
    by metis+
  moreover from c1 c2 keys have "obj_get fields ''channel'' = Str ''Online''"
    "obj_get fields ''category'' = Str ''Transfer''"
    by blast+
  ultimately have "\<exists>fields r rest.
         fst (snd (createTransaction demo_env demo_transaction ([], []))) =
           CreateAdminClient (Inr ()) #
           CreateDocument (DATABASE_ID demo_env) (TRANSACTION_COLLECTION_ID demo_env) ''unique()'' (Obj fields) r # rest
         \<and> obj_get fields ''senderBankId'' = Str ''X''
         \<and> obj_get fields ''receiverBankId'' = Str ''Y''
         \<and> obj_get fields ''amount'' = Str ''10''
         \<and> obj_get fields ''currency'' = Str ''USD''
         \<and> obj_get fields ''channel'' = Str ''Online''
         \<and> obj_get fields ''category'' = Str ''Transfer''"
    using t by blast
  with run keys show ?thesis by blast
qed

end
